theory Spec2Isabelle
  imports Complex_Main "HOL-Library.Multiset"
begin

section \<open>JavaScript numbers\<close>

text \<open>
  The normalization engine of \<^verbatim>\<open>app.js\<close> computes with JavaScript Number values,
  which are IEEE 754 binary64.  A value is NaN, one of the two infinities, negative
  zero, or a finite real (\<open>Fin 0\<close> is positive zero); the finite values that occur are
  the reals a binary64 represents.  Multiplication, division and numeric literals
  round the exact result to the nearest binary64, ties to the even significand: they
  overflow to an infinity and underflow to a zero.  A non-zero value divided by a zero
  is an infinity, \<open>0 / 0\<close>, \<open>\<infinity> / \<infinity>\<close> and \<open>0 * \<infinity>\<close> are NaN, and NaN
  propagates through every operation used here.
\<close>

datatype jsnum = NaN | PInf | NInf | NZero | Fin real

fun is_nan :: "jsnum \<Rightarrow> bool" where
  "is_nan NaN = True"
| "is_nan _ = False"

fun is_inf :: "jsnum \<Rightarrow> bool" where
  "is_inf PInf = True"
| "is_inf NInf = True"
| "is_inf _ = False"

fun val :: "jsnum \<Rightarrow> real" where
  "val (Fin r) = r"
| "val _ = 0"

definition is_zero :: "jsnum \<Rightarrow> bool" where
  \<comment> \<open>\<^verbatim>\<open>v === 0\<close>: true of both zeros\<close>
  "is_zero v = (v = NZero \<or> v = Fin 0)"

fun sign_neg :: "jsnum \<Rightarrow> bool" where
  "sign_neg NInf = True"
| "sign_neg NZero = True"
| "sign_neg (Fin r) = (r < 0)"
| "sign_neg _ = False"

definition signed_inf :: "bool \<Rightarrow> jsnum" where
  "signed_inf neg = (if neg then NInf else PInf)"

definition signed_zero :: "bool \<Rightarrow> jsnum" where
  "signed_zero neg = (if neg then NZero else Fin 0)"

subsection \<open>Rounding to binary64\<close>

definition pow2 :: "int \<Rightarrow> real" where
  "pow2 k = (if 0 \<le> k then 2 ^ nat k else 1 / 2 ^ nat (- k))"

definition round_half_even :: "real \<Rightarrow> int" where
  \<comment> \<open>the nearest integer, the even one of the two on a tie\<close>
  "round_half_even y =
     (let f = \<lfloor>y\<rfloor>
      in if y - of_int f < 1 / 2 then f
         else if 1 / 2 < y - of_int f then f + 1
         else if even f then f else f + 1)"

definition binade :: "real \<Rightarrow> int" where
  \<comment> \<open>the exponent \<open>e\<close> with \<open>2^e \<le> |x| < 2^(e+1)\<close>, and \<open>-1022\<close> for every subnormal \<open>x\<close>\<close>
  "binade x = max \<lfloor>log 2 \<bar>x\<bar>\<rfloor> (- 1022)"

definition round64 :: "real \<Rightarrow> jsnum" where
  \<comment> \<open>round to nearest, ties to even: the significand has 53 bits, so the spacing of
      binary64 values around \<open>x\<close> is \<open>2^(binade x - 52)\<close>\<close>
  "round64 x =
     (if x = 0 then Fin 0
      else let q = pow2 (binade x - 52);
               y = of_int (round_half_even (\<bar>x\<bar> / q)) * q
           in if pow2 1024 \<le> y then signed_inf (x < 0)
              else if y = 0 then signed_zero (x < 0)
              else Fin (if x < 0 then - y else y))"

definition js_lit :: "real \<Rightarrow> jsnum" where
  \<comment> \<open>a decimal literal of the source text\<close>
  "js_lit r = round64 r"

subsection \<open>Operations\<close>

definition js_mul :: "jsnum \<Rightarrow> jsnum \<Rightarrow> jsnum" where
  \<comment> \<open>\<^verbatim>\<open>a * b\<close>\<close>
  "js_mul a b =
     (if is_nan a \<or> is_nan b then NaN
      else if (is_inf a \<and> is_zero b) \<or> (is_zero a \<and> is_inf b) then NaN
      else if is_inf a \<or> is_inf b then signed_inf (sign_neg a \<noteq> sign_neg b)
      else if is_zero a \<or> is_zero b then signed_zero (sign_neg a \<noteq> sign_neg b)
      else round64 (val a * val b))"

definition js_div :: "jsnum \<Rightarrow> jsnum \<Rightarrow> jsnum" where
  \<comment> \<open>\<^verbatim>\<open>a / b\<close>\<close>
  "js_div a b =
     (if is_nan a \<or> is_nan b then NaN
      else if (is_inf a \<and> is_inf b) \<or> (is_zero a \<and> is_zero b) then NaN
      else if is_inf a \<or> is_zero b then signed_inf (sign_neg a \<noteq> sign_neg b)
      else if is_zero a \<or> is_inf b then signed_zero (sign_neg a \<noteq> sign_neg b)
      else round64 (val a / val b))"

text \<open>
  ECMAScript fixes \<^verbatim>\<open>Math.cbrt\<close> on NaN, the zeros and the infinities, which it returns
  unchanged, and leaves its value on every other argument to the implementation
  (``implementation-approximated'').  That part of the host is the parameter
  \<open>cbrt_impl\<close>: the finite number the host returns for a finite non-zero argument.
\<close>

fun Math_cbrt :: "(real \<Rightarrow> real) \<Rightarrow> jsnum \<Rightarrow> jsnum" where
  "Math_cbrt cbrt_impl (Fin r) = (if r = 0 then Fin 0 else Fin (cbrt_impl r))"
| "Math_cbrt cbrt_impl v = v"

definition cbrt_nearest :: "real \<Rightarrow> real" where
  \<comment> \<open>one host: the cube root rounded to the nearest binary64\<close>
  "cbrt_nearest r = val (round64 (root 3 r))"

definition js_lt :: "jsnum \<Rightarrow> jsnum \<Rightarrow> bool" where
  \<comment> \<open>\<^verbatim>\<open>a < b\<close>: false when an operand is NaN; the two zeros are equal\<close>
  "js_lt a b =
     (if is_nan a \<or> is_nan b then False
      else if a = PInf \<or> b = NInf then False
      else if a = NInf \<or> b = PInf then True
      else val a < val b)"

definition js_gt :: "jsnum \<Rightarrow> jsnum \<Rightarrow> bool" where
  \<comment> \<open>\<^verbatim>\<open>a > b\<close>\<close>
  "js_gt a b = js_lt b a"

definition Math_min2 :: "jsnum \<Rightarrow> jsnum \<Rightarrow> jsnum" where
  \<comment> \<open>\<^verbatim>\<open>Math.min(a, b)\<close>: NaN when an argument is NaN; \<open>-0\<close> is below \<open>+0\<close>\<close>
  "Math_min2 a b =
     (if is_nan a \<or> is_nan b then NaN
      else if js_lt a b then a
      else if js_lt b a then b
      else if sign_neg a then a else b)"

definition Math_min3 :: "jsnum \<Rightarrow> jsnum \<Rightarrow> jsnum \<Rightarrow> jsnum" where
  \<comment> \<open>\<^verbatim>\<open>Math.min(a, b, c)\<close>: the arguments are folded from the left\<close>
  "Math_min3 a b c = Math_min2 (Math_min2 a b) c"

definition Math_max2 :: "jsnum \<Rightarrow> jsnum \<Rightarrow> jsnum" where
  \<comment> \<open>\<^verbatim>\<open>Math.max(a, b)\<close>: NaN when an argument is NaN; \<open>+0\<close> is above \<open>-0\<close>\<close>
  "Math_max2 a b =
     (if is_nan a \<or> is_nan b then NaN
      else if js_lt b a then a
      else if js_lt a b then b
      else if sign_neg a then b else a)"

text \<open>
  \<^verbatim>\<open>v.toFixed(6)\<close> prints a finite value below \<open>10^21\<close> in magnitude as a decimal
  with six fraction digits: the integer \<open>n\<close> nearest to \<open>|v| * 10^6\<close> (the larger one
  on a tie), with a minus sign when \<open>v < 0\<close>.  \<open>Decimal6 neg n\<close> stands for that string,
  whose value is \<open>n / 10^6\<close>.  Every other value is printed as \<^verbatim>\<open>String(v)\<close> would.
\<close>

datatype numstr = Decimal6 bool nat | ToString jsnum

fun toFixed6 :: "jsnum \<Rightarrow> numstr" where
  "toFixed6 (Fin r) =
     (if \<bar>r\<bar> < 10 ^ 21 then Decimal6 (r < 0) (nat \<lfloor>\<bar>r\<bar> * 10 ^ 6 + 1 / 2\<rfloor>)
      else ToString (Fin r))"
| "toFixed6 NZero = Decimal6 False 0"
| "toFixed6 v = ToString v"


section \<open>Normalization and orientation constants\<close>

record targets =
  TARGET_HEIGHT :: jsnum
  TARGET_WIDTH :: jsnum
  TARGET_VOLUME :: jsnum

definition app_targets :: targets where
  \<comment> \<open>the three \<^verbatim>\<open>var\<close> declarations at the head of the closure\<close>
  "app_targets =
     (let height = js_lit (8 / 100); width = js_lit (8 / 100)
      in \<lparr> TARGET_HEIGHT = height, TARGET_WIDTH = width,
           TARGET_VOLUME = js_mul (js_mul height width) height \<rparr>)"


section \<open>Normalization engine\<close>

record dimensions =
  dim_x :: jsnum
  dim_y :: jsnum
  dim_z :: jsnum

text \<open>
  What \<^verbatim>\<open>normalizeModel\<close> does to the outside, in order: console output and the two
  attributes it sets on the viewer element.  The orientation attribute is built from
  the three angles, the scale attribute from three copies of the printed scale.
  The text of console messages is not kept.
\<close>

datatype effect =
    ConsoleWarn
  | ConsoleLog
  | SetOrientation int int int
  | SetScale numstr numstr numstr

definition rawZ_isTallest :: "jsnum \<Rightarrow> jsnum \<Rightarrow> jsnum \<Rightarrow> bool" where
  "rawZ_isTallest w h d = (js_gt d h \<and> js_gt d w)"

definition rawX_isTallest :: "jsnum \<Rightarrow> jsnum \<Rightarrow> jsnum \<Rightarrow> bool" where
  "rawX_isTallest w h d = (js_gt w h \<and> js_gt w d)"

definition autoOrient :: "jsnum \<Rightarrow> jsnum \<Rightarrow> jsnum \<Rightarrow> (int \<times> int \<times> int) \<times> (jsnum \<times> jsnum \<times> jsnum)" where
  \<comment> \<open>step 2 of \<^verbatim>\<open>normalizeModel\<close>: \<open>((orientX, orientY, orientZ), (effectiveW, effectiveH, effectiveD))\<close>\<close>
  "autoOrient rawW rawH rawD =
     (if rawZ_isTallest rawW rawH rawD then ((- 90, 0, 0), (rawW, rawD, rawH))
      else if rawX_isTallest rawW rawH rawD then ((0, 0, 90), (rawH, rawW, rawD))
      else ((0, 0, 0), (rawW, rawH, rawD)))"

definition clampScale :: "jsnum \<Rightarrow> jsnum" where
  \<comment> \<open>\<^verbatim>\<open>Math.max(0.01, Math.min(finalScale, 5.0))\<close>\<close>
  "clampScale s = Math_max2 (js_lit (1 / 100)) (Math_min2 s (js_lit 5))"

definition scaleByHeight :: "targets \<Rightarrow> jsnum \<Rightarrow> jsnum" where
  "scaleByHeight tg effectiveH = js_div (TARGET_HEIGHT tg) effectiveH"

definition scaleByWidth :: "targets \<Rightarrow> jsnum \<Rightarrow> jsnum" where
  "scaleByWidth tg effectiveW = js_div (TARGET_WIDTH tg) effectiveW"

definition currentVolume :: "jsnum \<Rightarrow> jsnum \<Rightarrow> jsnum \<Rightarrow> jsnum" where
  "currentVolume effectiveW effectiveH effectiveD = js_mul (js_mul effectiveW effectiveH) effectiveD"

definition scaleByVolume :: "(real \<Rightarrow> real) \<Rightarrow> targets \<Rightarrow> jsnum \<Rightarrow> jsnum \<Rightarrow> jsnum \<Rightarrow> jsnum" where
  "scaleByVolume cbrt_impl tg effectiveW effectiveH effectiveD =
     Math_cbrt cbrt_impl
       (js_div (TARGET_VOLUME tg) (currentVolume effectiveW effectiveH effectiveD))"

definition finalScale :: "(real \<Rightarrow> real) \<Rightarrow> targets \<Rightarrow> jsnum \<Rightarrow> jsnum \<Rightarrow> jsnum \<Rightarrow> jsnum" where
  \<comment> \<open>steps 3 to 5 of \<^verbatim>\<open>normalizeModel\<close>, on the effective dimensions\<close>
  "finalScale cbrt_impl tg effectiveW effectiveH effectiveD =
     clampScale (Math_min3 (scaleByHeight tg effectiveH) (scaleByWidth tg effectiveW)
                   (scaleByVolume cbrt_impl tg effectiveW effectiveH effectiveD))"

definition normalizeModel :: "(real \<Rightarrow> real) \<Rightarrow> targets \<Rightarrow> dimensions option \<Rightarrow> effect list" where
  \<comment> \<open>the last argument is what \<^verbatim>\<open>modelViewer.getDimensions()\<close> returned; \<open>None\<close> is null or undefined\<close>
  "normalizeModel cbrt_impl tg dims =
     (case dims of
        None \<Rightarrow> [ConsoleWarn]
      | Some dm \<Rightarrow>
          if is_zero (dim_x dm) \<and> is_zero (dim_y dm) \<and> is_zero (dim_z dm) then [ConsoleWarn]
          else
            (case autoOrient (dim_x dm) (dim_y dm) (dim_z dm) of
               ((orientX, orientY, orientZ), (effectiveW, effectiveH, effectiveD)) \<Rightarrow>
                 let s = toFixed6 (finalScale cbrt_impl tg effectiveW effectiveH effectiveD)
                 in [ConsoleLog, SetOrientation orientX orientY orientZ, ConsoleLog, ConsoleLog,
                     ConsoleLog, SetScale s s s, ConsoleLog]))"


section \<open>Facts about the number operations\<close>

lemma is_zero_simps [simp]:
  "is_zero NaN = False" "is_zero PInf = False" "is_zero NInf = False" "is_zero NZero = True"
  "is_zero (Fin r) = (r = 0)"
  by (simp_all add: is_zero_def)

lemma is_nan_signed [simp]: "\<not> is_nan (signed_inf s)" "\<not> is_nan (signed_zero s)"
  by (simp_all add: signed_inf_def signed_zero_def)

lemma js_gt_Fin [simp]: "js_gt (Fin a) (Fin b) = (b < a)"
  by (simp add: js_gt_def js_lt_def)

lemma js_gt_asym: "js_gt a b \<Longrightarrow> \<not> js_gt b a"
  by (cases a; cases b) (auto simp: js_gt_def js_lt_def split: if_splits)

lemma tallest_exclusive: "\<not> (rawZ_isTallest w h d \<and> rawX_isTallest w h d)"
  using js_gt_asym [of d w] by (auto simp: rawZ_isTallest_def rawX_isTallest_def)


section \<open>Orientation detector\<close>

text \<open>
  Claim C2.  For every raw triple: when depth is strictly greater than both height and
  width, the detector returns the rotation \<open>(-90, 0, 0)\<close> and the effective dimensions
  (width, depth, height); when width is strictly greater than both height and depth, it
  returns \<open>(0, 0, 90)\<close> and (height, width, depth).  The two tests never hold together,
  and the rotation is always one of the three fixed triples, so exactly one branch fires.
\<close>

theorem autoOrient_rotations:
  "(js_gt d h \<and> js_gt d w \<longrightarrow> autoOrient w h d = ((- 90, 0, 0), (w, d, h))) \<and>
   (js_gt w h \<and> js_gt w d \<longrightarrow> autoOrient w h d = ((0, 0, 90), (h, w, d))) \<and>
   \<not> (rawZ_isTallest w h d \<and> rawX_isTallest w h d) \<and>
   fst (autoOrient w h d) \<in> {(- 90, 0, 0), (0, 0, 90), (0, 0, 0)}"
  using tallest_exclusive [of w h d]
  by (auto simp: autoOrient_def rawZ_isTallest_def rawX_isTallest_def)

theorem autoOrient_rotations_witness:
  "js_gt (Fin (10 / 100)) (Fin (2 / 100)) \<and> js_gt (Fin (10 / 100)) (Fin (4 / 100)) \<and>
   autoOrient (Fin (4 / 100)) (Fin (2 / 100)) (Fin (10 / 100))
     = ((- 90, 0, 0), (Fin (4 / 100), Fin (10 / 100), Fin (2 / 100))) \<and>
   js_gt (Fin (12 / 100)) (Fin (3 / 100)) \<and> js_gt (Fin (12 / 100)) (Fin (5 / 100)) \<and>
   autoOrient (Fin (12 / 100)) (Fin (3 / 100)) (Fin (5 / 100))
     = ((0, 0, 90), (Fin (3 / 100), Fin (12 / 100), Fin (5 / 100)))"
  using autoOrient_rotations [where w = "Fin (4 / 100)" and h = "Fin (2 / 100)" and d = "Fin (10 / 100)"]
        autoOrient_rotations [where w = "Fin (12 / 100)" and h = "Fin (3 / 100)" and d = "Fin (5 / 100)"]
  by simp

text \<open>
  Claim C3.  For every raw triple in which neither depth nor width is strictly greater
  than both other axes (height is the tallest, or there is a tie for tallest), the
  detector returns the zero rotation and the raw dimensions unchanged.  The depth test
  comes first: whenever it holds, the rotation is the one about X.  The ties that
  select no rotation are the ties for tallest: in \<open>(1, 1, 3)\<close> the two shorter axes
  tie and the depth, strictly tallest, is rotated upright.
\<close>

theorem autoOrient_no_rotation:
  "(\<not> (js_gt d h \<and> js_gt d w) \<and> \<not> (js_gt w h \<and> js_gt w d)
      \<longrightarrow> autoOrient w h d = ((0, 0, 0), (w, h, d))) \<and>
   (js_gt d h \<and> js_gt d w \<longrightarrow> fst (autoOrient w h d) = (- 90, 0, 0))"
  by (auto simp: autoOrient_def rawZ_isTallest_def rawX_isTallest_def)

theorem autoOrient_no_rotation_witness:
  "\<not> (js_gt (Fin 2) (Fin 1) \<and> js_gt (Fin 2) (Fin 2)) \<and>
   autoOrient (Fin 2) (Fin 1) (Fin 2) = ((0, 0, 0), (Fin 2, Fin 1, Fin 2)) \<and>
   autoOrient (Fin 3) (Fin 3) (Fin 1) = ((0, 0, 0), (Fin 3, Fin 3, Fin 1)) \<and>
   autoOrient (Fin 1) (Fin 3) (Fin 3) = ((0, 0, 0), (Fin 1, Fin 3, Fin 3)) \<and>
   js_gt (Fin 3) (Fin 1) \<and>
   fst (autoOrient (Fin 1) (Fin 1) (Fin 3)) = (- 90, 0, 0)"
  using autoOrient_no_rotation [where w = "Fin 2" and h = "Fin 1" and d = "Fin 2"]
        autoOrient_no_rotation [where w = "Fin 3" and h = "Fin 3" and d = "Fin 1"]
        autoOrient_no_rotation [where w = "Fin 1" and h = "Fin 3" and d = "Fin 3"]
        autoOrient_no_rotation [where w = "Fin 1" and h = "Fin 1" and d = "Fin 3"]
  by simp


section \<open>Skipping\<close>

text \<open>
  Claim C6.  For the bounding box \<open>(0, 0, 0)\<close> the engine does nothing but issue a
  console warning: no orientation and no scale is set, and it returns normally.
\<close>

theorem skip_all_zero:
  "normalizeModel cbrt_impl tg (Some \<lparr> dim_x = Fin 0, dim_y = Fin 0, dim_z = Fin 0 \<rparr>)
     = [ConsoleWarn]"
  by (simp add: normalizeModel_def)

text \<open>
  Claim C9.  When the viewer returns no measurement (null or undefined), the engine
  behaves as for the all-zero box: a console warning and nothing else.
\<close>

theorem skip_absent:
  "normalizeModel cbrt_impl tg None = [ConsoleWarn] \<and>
   normalizeModel cbrt_impl tg None
     = normalizeModel cbrt_impl tg (Some \<lparr> dim_x = Fin 0, dim_y = Fin 0, dim_z = Fin 0 \<rparr>)"
  by (simp add: normalizeModel_def)

end
